theory Spec2Isabelle
  imports Complex_Main
begin

section \<open>Python strings and the \<open>os.path\<close> functions the server calls\<close>

text \<open>
  Strings are \<open>char list\<close>. \<open>str.lower\<close> is modelled on the ASCII letters; every other
  character is left as it is. \<open>os.path\<close> is \<open>posixpath\<close>: the separator is \<open>/\<close> and there
  is no alternative separator.
\<close>

definition ascii_uppercase :: string where
  "ascii_uppercase = ''ABCDEFGHIJKLMNOPQRSTUVWXYZ''"

definition ascii_lowercase :: string where
  "ascii_lowercase = ''abcdefghijklmnopqrstuvwxyz''"

definition lower_char :: "char \<Rightarrow> char" where
  "lower_char c =
     (case map_of (zip ascii_uppercase ascii_lowercase) c of None \<Rightarrow> c | Some d \<Rightarrow> d)"

definition lower :: "string \<Rightarrow> string" where
  "lower s = map lower_char s"

text \<open>\<open>p.rfind(c)\<close> for a one-character \<open>c\<close>: the highest index of \<open>c\<close> in \<open>p\<close>, or \<open>-1\<close>.\<close>

definition rfind :: "string \<Rightarrow> char \<Rightarrow> int" where
  "rfind p c =
     (case dropWhile (\<lambda>x. x \<noteq> c) (rev p) of [] \<Rightarrow> - 1 | _ # r \<Rightarrow> int (length r))"

text \<open>\<open>s.lstrip('.')\<close>.\<close>

definition lstrip_dot :: "string \<Rightarrow> string" where
  "lstrip_dot s = dropWhile (\<lambda>c. c = CHR ''.'') s"

text \<open>\<open>s.split(c)[0]\<close> and \<open>s.split(c, 1)[0]\<close>: the text before the first \<open>c\<close>.\<close>

definition split_head :: "char \<Rightarrow> string \<Rightarrow> string" where
  "split_head c s = takeWhile (\<lambda>x. x \<noteq> c) s"

text \<open>\<open>s.replace('"', '\\"')\<close>: every double quote gets a backslash in front.\<close>

fun replace_quote :: "string \<Rightarrow> string" where
  "replace_quote [] = []"
| "replace_quote (c # s) =
     (if c = CHR 0x22 then CHR 0x5C # CHR 0x22 # replace_quote s else c # replace_quote s)"

text \<open>\<open>s.replace("//", "/")\<close>: non-overlapping occurrences, from the left.\<close>

fun replace_double_slash :: "string \<Rightarrow> string" where
  "replace_double_slash (a # b # s) =
     (if a = CHR ''/'' \<and> b = CHR ''/'' then CHR ''/'' # replace_double_slash s
      else a # replace_double_slash (b # s))"
| "replace_double_slash s = s"

text \<open>\<open>str(n)\<close> for a natural number.\<close>

definition digit_char :: "nat \<Rightarrow> char" where
  "digit_char d = ''0123456789'' ! d"

fun str_nat :: "nat \<Rightarrow> string" where
  "str_nat n = (if n < 10 then [digit_char n] else str_nat (n div 10) @ [digit_char (n mod 10)])"

declare str_nat.simps [simp del]

text \<open>
  \<open>genericpath._splitext(p, '/', None, '.')\<close>. The loop that skips the leading dots of the
  file name is \<open>has_non_dot\<close>: it answers whether some character at an index from
  \<open>filenameIndex\<close> up to, not including, \<open>dotIndex\<close> is not a dot.
\<close>

function has_non_dot :: "string \<Rightarrow> nat \<Rightarrow> nat \<Rightarrow> bool" where
  "has_non_dot p filenameIndex dotIndex =
     (if filenameIndex < dotIndex
      then (if take 1 (drop filenameIndex p) \<noteq> ''.'' then True
            else has_non_dot p (filenameIndex + 1) dotIndex)
      else False)"
  by pat_completeness auto
termination
  by (relation "measure (\<lambda>(p, i, d). d - i)") auto

declare has_non_dot.simps [simp del]

definition splitext :: "string \<Rightarrow> string \<times> string" where
  "splitext p =
     (let sepIndex = rfind p CHR ''/'';
          dotIndex = rfind p CHR ''.''
      in if dotIndex > sepIndex \<and> has_non_dot p (nat (sepIndex + 1)) (nat dotIndex)
         then (take (nat dotIndex) p, drop (nat dotIndex) p)
         else (p, []))"

text \<open>\<open>posixpath.basename\<close>, \<open>posixpath.dirname\<close> and \<open>posixpath.join\<close> (two arguments).\<close>

definition basename :: "string \<Rightarrow> string" where
  "basename p = drop (nat (rfind p CHR ''/'' + 1)) p"



definition endswith_sep :: "string \<Rightarrow> bool" where
  "endswith_sep s = (s \<noteq> [] \<and> last s = CHR ''/'')"

definition os_path_join :: "string \<Rightarrow> string \<Rightarrow> string" where
  "os_path_join a b =
     (if b \<noteq> [] \<and> hd b = CHR ''/'' then b
      else if a = [] \<or> endswith_sep a then a @ b
      else a @ ''/'' @ b)"

section \<open>The directory listing: data model\<close>

datatype file_type = File | Directory | Symlink

record file_entry =
  name :: string
  extension :: "string option"
  ftype :: file_type
  size_bytes :: nat
  modified_timestamp :: real
  modified_iso :: "string option"
  path :: string

record directory_listing =
  directory :: string
  total_items :: nat
  generated_at :: string
  files :: "file_entry list"

text \<open>
  Lines 197-198 of \<open>directory_server.py\<close>:
  \<^verbatim>\<open>_, extension = os.path.splitext(name)\<close>,
  \<^verbatim>\<open>extension = extension.lstrip('.').lower() if extension else None\<close>.
\<close>

definition entry_extension :: "string \<Rightarrow> string option" where
  "entry_extension nm =
     (let ext = snd (splitext nm)
      in if ext \<noteq> [] then Some (lower (lstrip_dot ext)) else None)"

text \<open>
  \<open>files.sort(key=..., reverse=True)\<close>: CPython reverses the list, sorts it with a stable
  ascending sort, and reverses the result. \<open>sort_key\<close> is a stable ascending sort.
\<close>

definition sort_reverse :: "('a \<Rightarrow> 'k::linorder) \<Rightarrow> 'a list \<Rightarrow> 'a list" where
  "sort_reverse key xs = rev (sort_key key (rev xs))"


section \<open>The environment: file system, clock and library calls\<close>

text \<open>
  The handler reads the file system through \<open>os.listdir\<close>, \<open>os.stat\<close>, \<open>os.path.isdir\<close>,
  \<open>os.path.islink\<close>, \<open>os.path.isfile\<close> and \<open>open\<close>. Their answers, and the results of the
  library calls whose text no property depends on (clock, JSON encoder, error page,
  \<open>mimetypes\<close>, URL splitting), are fields of an environment record. A call that can raise
  returns a sum: \<open>Inl\<close> is the exception. Modification times are real numbers.
\<close>

datatype exn = OSError | ValueError | OverflowError

record stat_result =
  st_mtime :: real
  st_size :: nat

record env =
  os_listdir :: "string \<Rightarrow> exn + string list"
  os_stat :: "string \<Rightarrow> exn + stat_result"
  fromtimestamp_isoformat :: "real \<Rightarrow> exn + string"
  os_path_isdir :: "string \<Rightarrow> bool"
  os_path_islink :: "string \<Rightarrow> bool"
  os_path_isfile :: "string \<Rightarrow> bool"
  open_rb :: "string \<Rightarrow> exn + (stat_result \<times> string)"
  now_isoformat :: string
  json_dumps :: "directory_listing \<Rightarrow> string"
  version_string :: string
  date_time_string :: string
  http_date :: "real \<Rightarrow> string"
  error_page :: "nat \<Rightarrow> string \<Rightarrow> string"
  mimetypes_guess_type :: "string \<Rightarrow> string"
  not_modified_since :: "real \<Rightarrow> bool"
  urlsplit_path :: "string \<Rightarrow> string"
  redirect_url :: "string \<Rightarrow> string"
  py_repr :: "string \<Rightarrow> string"

section \<open>The request handler\<close>

text \<open>
  The handler state: the request (\<open>self.command\<close>, \<open>self.path\<close>), the served directory
  (\<open>self.directory\<close>), the header buffer of \<open>BaseHTTPRequestHandler\<close> and what has been
  written to the client. The model starts after \<open>parse_request\<close> has accepted an HTTP/1.x
  request line. A flushed header block is one \<open>Head\<close> chunk; a body is one \<open>Body\<close> chunk.
\<close>

datatype line = Status_line nat "string option" | Header string string

datatype chunk = Head "line list" | Body_json directory_listing | Body_bytes string

record handler =
  command :: string
  self_path :: string
  self_directory :: string
  headers_buffer :: "line list"
  wfile :: "chunk list"

subsection \<open>Inherited from \<open>BaseHTTPRequestHandler\<close>\<close>

definition send_response_only :: "nat \<Rightarrow> string option \<Rightarrow> handler \<Rightarrow> handler" where
  "send_response_only code message h =
     h\<lparr>headers_buffer := headers_buffer h @ [Status_line code message]\<rparr>"

definition send_header :: "string \<Rightarrow> string \<Rightarrow> handler \<Rightarrow> handler" where
  "send_header keyword v h = h\<lparr>headers_buffer := headers_buffer h @ [Header keyword v]\<rparr>"

definition send_response :: "env \<Rightarrow> nat \<Rightarrow> string option \<Rightarrow> handler \<Rightarrow> handler" where
  "send_response env code message h =
     (let h1 = send_response_only code message h;
          h2 = send_header ''Server'' (version_string env) h1
      in send_header ''Date'' (date_time_string env) h2)"

text \<open>\<open>BaseHTTPRequestHandler.end_headers\<close>: flush the buffer to the client.\<close>

definition super_end_headers :: "handler \<Rightarrow> handler" where
  "super_end_headers h = h\<lparr>wfile := wfile h @ [Head (headers_buffer h)], headers_buffer := []\<rparr>"

subsection \<open>\<open>DirectoryHandler.end_headers\<close> (lines 113-134)\<close>

definition force_download_extensions :: "string list" where
  "force_download_extensions = [''.ppsx'', ''.pptx'', ''.ppt'', ''.pps'']"

definition content_disposition :: "string \<Rightarrow> string" where
  "content_disposition filename = ''attachment; filename='' @ [CHR 0x22] @ filename @ [CHR 0x22]"

definition end_headers :: "handler \<Rightarrow> handler" where
  "end_headers h =
     (let h1 = send_header ''Access-Control-Allow-Origin'' ''*'' h;
          h2 = send_header ''Access-Control-Allow-Methods'' ''GET, OPTIONS'' h1;
          h3 = send_header ''Access-Control-Allow-Headers'' ''Range'' h2;
          h4 = send_header ''Access-Control-Max-Age'' ''86400'' h3;
          path = split_head CHR ''?'' (self_path h);
          ext = lower (snd (splitext path));
          h5 = (if ext \<in> set force_download_extensions
                then (let filename = replace_quote (basename path)
                      in send_header ''Content-Disposition'' (content_disposition filename) h4)
                else h4)
      in super_end_headers h5)"

text \<open>\<open>BaseHTTPRequestHandler.send_error\<close>; its \<open>end_headers\<close> is the handler's own.\<close>

definition send_error :: "env \<Rightarrow> nat \<Rightarrow> string \<Rightarrow> handler \<Rightarrow> handler" where
  "send_error env code message h =
     (let h1 = send_response env code (Some message) h;
          h2 = send_header ''Connection'' ''close'' h1;
          body = (if code \<ge> 200 \<and> code \<notin> {204, 205, 304}
                  then Some (error_page env code message) else None);
          h3 = (case body of
                  None \<Rightarrow> h2
                | Some b \<Rightarrow> send_header ''Content-Length'' (str_nat (length b))
                             (send_header ''Content-Type'' ''text/html;charset=utf-8'' h2));
          h4 = end_headers h3
      in case body of
           None \<Rightarrow> h4
         | Some b \<Rightarrow> (if command h \<noteq> ''HEAD'' \<and> b \<noteq> []
                      then h4\<lparr>wfile := wfile h4 @ [Body_bytes b]\<rparr> else h4))"

subsection \<open>\<open>DirectoryHandler.do_OPTIONS\<close> (lines 136-139)\<close>


subsection \<open>\<open>DirectoryHandler.guess_type\<close> (lines 141-165)\<close>



subsection \<open>\<open>urllib.parse.unquote\<close>, on bytes\<close>

definition hex_value :: "char \<Rightarrow> nat option" where
  "hex_value c = map_of (zip ''0123456789abcdefABCDEF''
                   [0, 1, 2, 3, 4, 5, 6, 7, 8, 9, 10, 11, 12, 13, 14, 15, 10, 11, 12, 13, 14, 15]) c"

fun unquote :: "string \<Rightarrow> string" where
  "unquote (c # a # b # s) =
     (if c = CHR ''%''
      then (case (hex_value a, hex_value b) of
              (Some x, Some y) \<Rightarrow> char_of (16 * x + y) # unquote s
            | _ \<Rightarrow> c # unquote (a # b # s))
      else c # unquote (a # b # s))"
| "unquote s = s"

subsection \<open>\<open>DirectoryHandler.list_directory\<close> (lines 167-231)\<close>

text \<open>
  Lines 181-189: the \<open>try\<close> block catches \<open>OSError\<close> only, from \<open>os.stat\<close> or from
  \<open>datetime.fromtimestamp\<close>; any other exception leaves \<open>list_directory\<close>.
\<close>

definition stat_fields :: "env \<Rightarrow> string \<Rightarrow> exn + (real \<times> string option \<times> nat)" where
  "stat_fields env fullname =
     (case os_stat env fullname of
        Inl e \<Rightarrow> (if e = OSError then Inr (0, None, 0) else Inl e)
      | Inr stat_info \<Rightarrow>
          (case fromtimestamp_isoformat env (st_mtime stat_info) of
             Inl e \<Rightarrow> (if e = OSError then Inr (0, None, 0) else Inl e)
           | Inr iso_text \<Rightarrow> Inr (st_mtime stat_info, Some iso_text, st_size stat_info)))"

text \<open>Lines 191-195.\<close>

definition classify :: "env \<Rightarrow> string \<Rightarrow> file_type" where
  "classify env fullname =
     (if os_path_isdir env fullname then Directory
      else if os_path_islink env fullname then Symlink
      else File)"

text \<open>One iteration of the loop of lines 178-208.\<close>

definition make_entry :: "env \<Rightarrow> string \<Rightarrow> string \<Rightarrow> string \<Rightarrow> exn + file_entry" where
  "make_entry env dir_path display_path nm =
     (let fullname = os_path_join dir_path nm
      in case stat_fields env fullname of
           Inl e \<Rightarrow> Inl e
         | Inr (ts, iso_text, sz) \<Rightarrow>
             Inr \<lparr>name = nm,
                  extension = entry_extension nm,
                  ftype = classify env fullname,
                  size_bytes = sz,
                  modified_timestamp = ts,
                  modified_iso = iso_text,
                  path = replace_double_slash (os_path_join display_path nm)\<rparr>)"

fun make_entries :: "env \<Rightarrow> string \<Rightarrow> string \<Rightarrow> string list \<Rightarrow> exn + file_entry list" where
  "make_entries env dir_path display_path [] = Inr []"
| "make_entries env dir_path display_path (nm # file_list) =
     (case make_entry env dir_path display_path nm of
        Inl e \<Rightarrow> Inl e
      | Inr fe \<Rightarrow>
          (case make_entries env dir_path display_path file_list of
             Inl e \<Rightarrow> Inl e
           | Inr fes \<Rightarrow> Inr (fe # fes)))"

definition list_directory :: "env \<Rightarrow> string \<Rightarrow> handler \<Rightarrow> exn + (handler \<times> chunk option)" where
  "list_directory env dir_path h =
     (case os_listdir env dir_path of
        Inl e \<Rightarrow>
          (if e = OSError
           then Inr (send_error env 404 ''No permission to list directory'' h, None)
           else Inl e)
      | Inr file_list \<Rightarrow>
          (let display_path = unquote (self_path h)
           in case make_entries env dir_path display_path file_list of
                Inl e \<Rightarrow> Inl e
              | Inr unsorted \<Rightarrow>
                  (let fs = sort_reverse modified_timestamp unsorted;
                       response_data = \<lparr>directory = display_path,
                                        total_items = length fs,
                                        generated_at = now_isoformat env,
                                        files = fs\<rparr>;
                       content = json_dumps env response_data;
                       h1 = send_response env 200 None h;
                       h2 = send_header ''Content-Type'' ''application/json; charset=utf-8'' h1;
                       h3 = send_header ''Content-Length'' (str_nat (length content)) h2
                   in Inr (end_headers h3, Some (Body_json response_data)))))"

subsection \<open>Inherited from \<open>SimpleHTTPRequestHandler\<close>: path translation\<close>








subsection \<open>Inherited from \<open>SimpleHTTPRequestHandler\<close>: serving a request\<close>






text \<open>A handler that has received the request \<open>method url\<close> and has written nothing yet.\<close>

definition request :: "string \<Rightarrow> string \<Rightarrow> string \<Rightarrow> handler" where
  "request root_dir method url =
     \<lparr>command = method, self_path = url, self_directory = root_dir,
      headers_buffer = [], wfile = []\<rparr>"

section \<open>Server start-up: \<open>run_server\<close> (lines 239-284)\<close>

text \<open>
  \<open>run_server\<close> is modelled by the sequence of its effects and the way it ends. The
  outcomes of the calls it makes are fields of \<open>startup_env\<close>; log messages are
  shortened to their fixed text.
  \<open>ThreadedHTTPServer(server_address, DirectoryHandler)\<close> creates, binds and activates
  the listening socket (\<open>Bind\<close>); \<open>serve_forever\<close> accepts connections, and the outcome
  \<open>Serving\<close> stands for the run that has entered it.
\<close>

datatype event =
    Log_info string
  | Log_warning string
  | Log_error string
  | Sleep nat
  | Chdir string
  | Bind nat
  | Load_cert_chain string string
  | Wrap_socket
  | Serve_forever string

datatype outcome = Sys_exit nat | Uncaught exn | Serving

record startup_env =
  is_google_drive_running :: "nat \<Rightarrow> bool"
  chdir_ok :: "string \<Rightarrow> bool"
  bind_ok :: "nat \<Rightarrow> bool"
  load_cert_chain_ok :: "string \<Rightarrow> string \<Rightarrow> bool"
  wrap_socket_ok :: bool

definition MAX_RETRIES :: nat where
  "MAX_RETRIES = 10"

definition RETRY_INTERVAL_SECONDS :: nat where
  "RETRY_INTERVAL_SECONDS = 60"

text \<open>\<open>wait_for_google_drive\<close> (lines 83-105); \<open>wait_loop\<close> is its \<open>for\<close> loop.\<close>

fun wait_loop :: "startup_env \<Rightarrow> nat list \<Rightarrow> event list \<times> bool" where
  "wait_loop senv [] =
     ([Log_error ''[ERROR] Google Drive not detected'',
       Log_error ''Exiting without starting server.''], False)"
| "wait_loop senv (attempt # attempts) =
     (if is_google_drive_running senv attempt
      then ([Log_info ''[OK] Google Drive detected''], True)
      else
        (let (evs, r) = wait_loop senv attempts
         in (Log_warning ''Google Drive not running''
               # (if attempt < MAX_RETRIES
                  then [Log_info ''Waiting before next check...'', Sleep RETRY_INTERVAL_SECONDS]
                  else [])
               @ evs, r)))"

definition wait_for_google_drive :: "startup_env \<Rightarrow> event list \<times> bool" where
  "wait_for_google_drive senv =
     (let (evs, r) = wait_loop senv [1 ..< MAX_RETRIES + 1]
      in ([Log_info (replicate 50 CHR ''=''), Log_info ''Directory Server starting...'',
           Log_info ''Log file'', Log_info (replicate 50 CHR ''='')] @ evs, r))"

text \<open>\<open>s.strip(c)\<close> for a one-character \<open>c\<close>, and Python's truth value of an optional string.\<close>

definition strip_char :: "char \<Rightarrow> string \<Rightarrow> string" where
  "strip_char c s = rev (dropWhile (\<lambda>x. x = c) (rev (dropWhile (\<lambda>x. x = c) s)))"

definition strip_quotes :: "string \<Rightarrow> string" where
  "strip_quotes s = strip_char (CHR 0x27) (strip_char (CHR 0x22) s)"

fun truthy :: "string option \<Rightarrow> bool" where
  "truthy None = False"
| "truthy (Some s) = (s \<noteq> [])"

text \<open>Lines 253-261: the certificate and key paths that are loaded.\<close>

definition tls_files :: "string \<Rightarrow> string option \<Rightarrow> string \<times> string" where
  "tls_files certfile0 keyfile0 =
     (let certfile = strip_quotes certfile0;
          keyfile1 = (case keyfile0 of
                        None \<Rightarrow> None
                      | Some k \<Rightarrow> (if k \<noteq> [] then Some (strip_quotes k) else Some k))
      in (certfile, case keyfile1 of
                      None \<Rightarrow> certfile
                    | Some k \<Rightarrow> (if k = [] then certfile else k)))"

text \<open>
  Lines 250-273: the TLS set-up, entered with the socket already bound. Any exception of
  \<open>load_cert_chain\<close> or \<open>wrap_socket\<close> is caught, logged, and followed by \<open>sys.exit(1)\<close>.
\<close>

definition enable_https :: "startup_env \<Rightarrow> string \<Rightarrow> string option \<Rightarrow> event list \<times> outcome option" where
  "enable_https senv certfile0 keyfile0 =
     (let (certfile, keyfile) = tls_files certfile0 keyfile0;
          evs = [Log_info (''Enabling HTTPS using cert: '' @ certfile),
                 Load_cert_chain certfile keyfile]
      in if \<not> load_cert_chain_ok senv certfile keyfile
         then (evs @ [Log_error ''Failed to load SSL certificate''], Some (Sys_exit 1))
         else if \<not> wrap_socket_ok senv
         then (evs @ [Wrap_socket, Log_error ''Failed to load SSL certificate''], Some (Sys_exit 1))
         else (evs @ [Wrap_socket], None))"

definition serve :: "string \<Rightarrow> nat \<Rightarrow> event list" where
  "serve protocol port =
     [Log_info (''Serving '' @ protocol), Log_info ''Directory'', Log_info ''Open in your browser'',
      Log_info ''Press Ctrl+C to stop the server'', Serve_forever protocol]"

definition run_server ::
  "startup_env \<Rightarrow> nat \<Rightarrow> string option \<Rightarrow> bool \<Rightarrow> string option \<Rightarrow> string option
     \<Rightarrow> event list \<times> outcome" where
  "run_server senv port dir skip_drive_check certfile keyfile =
     (let (ev1, ready) = (if \<not> skip_drive_check then wait_for_google_drive senv else ([], True))
      in if \<not> ready then (ev1, Sys_exit 1)
         else
           (let (ev2, changed) =
                  (case dir of
                     None \<Rightarrow> ([], True)
                   | Some d \<Rightarrow> (if d \<noteq> [] then ([Chdir d], chdir_ok senv d) else ([], True)))
            in if \<not> changed then (ev1 @ ev2, Uncaught OSError)
               else if \<not> bind_ok senv port then (ev1 @ ev2 @ [Bind port], Uncaught OSError)
               else
                 (let ev3 = ev1 @ ev2 @ [Bind port]
                  in if truthy certfile
                     then
                       (case enable_https senv (case certfile of Some c \<Rightarrow> c | None \<Rightarrow> []) keyfile of
                          (ev4, Some out) \<Rightarrow> (ev3 @ ev4, out)
                        | (ev4, None) \<Rightarrow> (ev3 @ ev4 @ serve ''https'' port, Serving))
                     else (ev3 @ serve ''http'' port, Serving))))"

section \<open>Notions used to state the properties\<close>



text \<open>The listing a call of \<open>list_directory\<close> returns, if it returns one.\<close>

fun response_listing :: "exn + (handler \<times> chunk option) \<Rightarrow> directory_listing option" where
  "response_listing (Inr (h, Some (Body_json l))) = Some l"
| "response_listing r = None"

text \<open>The header blocks among the chunks written to the client, and their status codes.\<close>

fun heads :: "chunk list \<Rightarrow> line list list" where
  "heads [] = []"
| "heads (Head ls # cs) = ls # heads cs"
| "heads (c # cs) = heads cs"

fun listings :: "chunk list \<Rightarrow> directory_listing list" where
  "listings [] = []"
| "listings (Body_json l # cs) = l # listings cs"
| "listings (c # cs) = listings cs"

fun status_codes :: "line list \<Rightarrow> nat list" where
  "status_codes [] = []"
| "status_codes (Status_line code message # ls) = code # status_codes ls"
| "status_codes (l # ls) = status_codes ls"

fun header_values :: "string \<Rightarrow> line list \<Rightarrow> string list" where
  "header_values k [] = []"
| "header_values k (Header k' v # ls) =
     (if k' = k then v # header_values k ls else header_values k ls)"
| "header_values k (l # ls) = header_values k ls"

definition cors_headers :: "line list" where
  "cors_headers =
     [Header ''Access-Control-Allow-Origin'' ''*'',
      Header ''Access-Control-Allow-Methods'' ''GET, OPTIONS'',
      Header ''Access-Control-Allow-Headers'' ''Range'',
      Header ''Access-Control-Max-Age'' ''86400'']"


text \<open>The extension the handler looks at: of the request URL up to the first \<open>?\<close>.\<close>

definition url_extension :: "string \<Rightarrow> string" where
  "url_extension url = lower (snd (splitext (split_head CHR ''?'' url)))"

text \<open>The lines \<open>end_headers\<close> adds for a request URL after the four CORS headers.\<close>

definition disposition_lines :: "string \<Rightarrow> line list" where
  "disposition_lines url =
     (if url_extension url \<in> set force_download_extensions
      then [Header ''Content-Disposition''
              (content_disposition (replace_quote (basename (split_head CHR ''?'' url))))]
      else [])"






section \<open>A sample file system\<close>

text \<open>
  The directory \<open>/srv\<close> holds two files with the same modification time, an older file,
  a file whose \<open>stat\<close> fails, \<open>docs\<close>, a symbolic link to a directory, and \<open>latest\<close>, a
  symbolic link to a file. \<open>sample_listing\<close> is the listing of \<open>/srv/\<close> for the request
  \<open>GET /\<close>.
\<close>

definition sample_env :: env where
  "sample_env =
     \<lparr>os_listdir = (\<lambda>p. if p = ''/srv/'' then Inr [''old.txt'', ''gone.tmp'', ''notes.txt'', ''docs'', ''Report.PDF'', ''latest'']
                         else Inl OSError),
      os_stat = (\<lambda>p. if p = ''/srv/old.txt'' then Inr \<lparr>st_mtime = 50, st_size = 7\<rparr>
                      else if p = ''/srv/notes.txt'' then Inr \<lparr>st_mtime = 100, st_size = 12\<rparr>
                      else if p = ''/srv/docs'' then Inr \<lparr>st_mtime = 300, st_size = 4096\<rparr>
                      else if p = ''/srv/Report.PDF'' then Inr \<lparr>st_mtime = 100, st_size = 2048\<rparr>
                      else if p = ''/srv/latest'' then Inr \<lparr>st_mtime = 200, st_size = 2048\<rparr>
                      else Inl OSError),
      fromtimestamp_isoformat = (\<lambda>t. Inr ''1970-01-01T00:00:00''),
      os_path_isdir = (\<lambda>p. p = ''/srv/'' \<or> p = ''/srv'' \<or> p = ''/srv/docs''),
      os_path_islink = (\<lambda>p. p = ''/srv/docs'' \<or> p = ''/srv/latest''),
      os_path_isfile = (\<lambda>p. False),
      open_rb = (\<lambda>p. if p = ''/srv/deck.pptx'' then Inr (\<lparr>st_mtime = 50, st_size = 3\<rparr>, ''PPT'')
                      else if p = ''/srv/Report.PDF'' then Inr (\<lparr>st_mtime = 100, st_size = 4\<rparr>, ''%PDF'')
                      else Inl OSError),
      now_isoformat = ''2024-01-01T00:00:00'',
      json_dumps = (\<lambda>l. ''{}''),
      version_string = ''SimpleHTTP/0.6'',
      date_time_string = ''Mon, 01 Jan 2024 00:00:00 GMT'',
      http_date = (\<lambda>t. ''Thu, 01 Jan 1970 00:00:00 GMT''),
      error_page = (\<lambda>code message. message),
      mimetypes_guess_type = (\<lambda>p. ''application/octet-stream''),
      not_modified_since = (\<lambda>t. False),
      urlsplit_path = (\<lambda>url. split_head CHR ''#'' (split_head CHR ''?'' url)),
      redirect_url = (\<lambda>url. url @ ''/''),
      py_repr = (\<lambda>s. s)\<rparr>"

definition sample_files :: "file_entry list" where
  "sample_files =
     [\<lparr>name = ''docs'', extension = None, ftype = Directory, size_bytes = 4096,
       modified_timestamp = 300, modified_iso = Some ''1970-01-01T00:00:00'', path = ''/docs''\<rparr>,
      \<lparr>name = ''latest'', extension = None, ftype = Symlink, size_bytes = 2048,
       modified_timestamp = 200, modified_iso = Some ''1970-01-01T00:00:00'', path = ''/latest''\<rparr>,
      \<lparr>name = ''notes.txt'', extension = Some ''txt'', ftype = File, size_bytes = 12,
       modified_timestamp = 100, modified_iso = Some ''1970-01-01T00:00:00'', path = ''/notes.txt''\<rparr>,
      \<lparr>name = ''Report.PDF'', extension = Some ''pdf'', ftype = File, size_bytes = 2048,
       modified_timestamp = 100, modified_iso = Some ''1970-01-01T00:00:00'', path = ''/Report.PDF''\<rparr>,
      \<lparr>name = ''old.txt'', extension = Some ''txt'', ftype = File, size_bytes = 7,
       modified_timestamp = 50, modified_iso = Some ''1970-01-01T00:00:00'', path = ''/old.txt''\<rparr>,
      \<lparr>name = ''gone.tmp'', extension = Some ''tmp'', ftype = File, size_bytes = 0,
       modified_timestamp = 0, modified_iso = None, path = ''/gone.tmp''\<rparr>]"

definition sample_listing :: directory_listing where
  "sample_listing =
     \<lparr>directory = ''/'', total_items = 6, generated_at = ''2024-01-01T00:00:00'',
      files = sample_files\<rparr>"

definition sample_startup :: startup_env where
  "sample_startup =
     \<lparr>is_google_drive_running = (\<lambda>attempt. True),
      chdir_ok = (\<lambda>d. True),
      bind_ok = (\<lambda>port. True),
      load_cert_chain_ok = (\<lambda>certfile keyfile. False),
      wrap_socket_ok = True\<rparr>"

section \<open>Facts about the string functions\<close>






















section \<open>Facts about the listing\<close>

lemma make_entry_fields:
  assumes "make_entry env d dp nm = Inr fe"
  shows "name fe = nm" and "extension fe = entry_extension nm"
    and "ftype fe = classify env (os_path_join d nm)"
    and "stat_fields env (os_path_join d nm)
           = Inr (modified_timestamp fe, modified_iso fe, size_bytes fe)"
  using assms by (auto simp: make_entry_def Let_def split: sum.splits prod.splits)

lemma make_entries_all2:
  "make_entries env d dp ns = Inr fes \<Longrightarrow>
     list_all2 (\<lambda>nm fe. make_entry env d dp nm = Inr fe) ns fes"
proof (induction ns arbitrary: fes)
  case Nil
  then show ?case by simp
next
  case (Cons nm ns)
  from Cons.prems obtain fe rest where
    fe: "make_entry env d dp nm = Inr fe" and
    rest: "make_entries env d dp ns = Inr rest" and
    fes: "fes = fe # rest"
    by (auto split: sum.splits)
  from Cons.IH[OF rest] fe fes show ?case by simp
qed

lemma make_entries_names: "make_entries env d dp ns = Inr fes \<Longrightarrow> map name fes = ns"
proof (induction ns arbitrary: fes)
  case Nil
  then show ?case by simp
next
  case (Cons nm ns)
  from Cons.prems obtain fe rest where
    fe: "make_entry env d dp nm = Inr fe" and
    rest: "make_entries env d dp ns = Inr rest" and
    fes: "fes = fe # rest"
    by (auto split: sum.splits)
  from Cons.IH[OF rest] make_entry_fields(1)[OF fe] fes show ?case by simp
qed

lemma make_entries_member:
  "make_entries env d dp ns = Inr fes \<Longrightarrow> fe \<in> set fes \<Longrightarrow>
     make_entry env d dp (name fe) = Inr fe \<and> name fe \<in> set ns"
proof (induction ns arbitrary: fes)
  case Nil
  then show ?case by simp
next
  case (Cons nm ns)
  from Cons.prems(1) obtain fe0 rest where
    fe0: "make_entry env d dp nm = Inr fe0" and
    rest: "make_entries env d dp ns = Inr rest" and
    fes: "fes = fe0 # rest"
    by (auto split: sum.splits)
  show ?case
  proof (cases "fe = fe0")
    case True
    with fe0 make_entry_fields(1)[OF fe0] show ?thesis by simp
  next
    case False
    with Cons.prems(2) fes have "fe \<in> set rest" by simp
    from Cons.IH[OF rest this] show ?thesis by simp
  qed
qed

lemma set_sort_reverse: "set (sort_reverse key xs) = set xs"
  by (simp add: sort_reverse_def)


lemma sort_reverse_descending: "sorted_wrt (\<lambda>a b. key a \<ge> key b) (sort_reverse key xs)"
proof -
  have "sorted (map key (sort_key key (rev xs)))" by (rule sorted_sort_key)
  then have "sorted_wrt (\<lambda>a b. key a \<le> key b) (sort_key key (rev xs))"
    by (simp add: sorted_map)
  then show ?thesis unfolding sort_reverse_def by (simp add: sorted_wrt_rev)
qed

lemma sort_reverse_stable:
  "filter (\<lambda>x. key x = k) (sort_reverse key xs) = filter (\<lambda>x. key x = k) xs"
proof -
  have "filter (\<lambda>x. key x = k) (sort_reverse key xs)
          = rev (filter (\<lambda>x. key x = k) (sort_key key (rev xs)))"
    unfolding sort_reverse_def by (simp add: rev_filter)
  also have "\<dots> = rev (filter (\<lambda>x. key x = k) (rev xs))"
    by (simp only: sort_key_stable)
  also have "\<dots> = filter (\<lambda>x. key x = k) xs" by (simp add: rev_filter)
  finally show ?thesis .
qed

lemma list_directory_listing:
  assumes "response_listing (list_directory env d h) = Some l"
  shows "\<exists>file_list unsorted.
           os_listdir env d = Inr file_list
         \<and> make_entries env d (unquote (self_path h)) file_list = Inr unsorted
         \<and> files l = sort_reverse modified_timestamp unsorted
         \<and> total_items l = length (files l)
         \<and> directory l = unquote (self_path h)"
proof (cases "os_listdir env d")
  case (Inl e)
  with assms show ?thesis by (simp add: list_directory_def split: if_splits)
next
  case (Inr file_list)
  show ?thesis
  proof (cases "make_entries env d (unquote (self_path h)) file_list")
    case (Inl e)
    with Inr assms show ?thesis by (simp add: list_directory_def Let_def)
  next
    case unsorted: (Inr unsorted)
    with Inr assms show ?thesis by (auto simp: list_directory_def Let_def)
  qed
qed

lemma sample_listing_eq:
  "response_listing (list_directory sample_env ''/srv/'' (request ''/srv'' ''GET'' ''/''))
     = Some sample_listing"
  by (simp add: list_directory_def sample_env_def request_def make_entry_def stat_fields_def
      classify_def os_path_join_def endswith_sep_def entry_extension_def splitext_def rfind_def
      has_non_dot.simps lstrip_dot_def lower_def lower_char_def ascii_uppercase_def
      ascii_lowercase_def sort_reverse_def sample_listing_def sample_files_def Let_def)

section \<open>Facts about the header machinery\<close>

lemma send_header_fields [simp]:
  "headers_buffer (send_header k v h) = headers_buffer h @ [Header k v]"
  "wfile (send_header k v h) = wfile h"
  "self_path (send_header k v h) = self_path h"
  "command (send_header k v h) = command h"
  "self_directory (send_header k v h) = self_directory h"
  by (simp_all add: send_header_def)

lemma send_response_fields [simp]:
  "headers_buffer (send_response env code m h) =
     headers_buffer h @ [Status_line code m, Header ''Server'' (version_string env),
                         Header ''Date'' (date_time_string env)]"
  "wfile (send_response env code m h) = wfile h"
  "self_path (send_response env code m h) = self_path h"
  "command (send_response env code m h) = command h"
  "self_directory (send_response env code m h) = self_directory h"
  by (simp_all add: send_response_def send_response_only_def Let_def)

lemma end_headers_fields [simp]:
  "wfile (end_headers h) =
     wfile h @ [Head (headers_buffer h @ cors_headers @ disposition_lines (self_path h))]"
  "headers_buffer (end_headers h) = []"
  "self_path (end_headers h) = self_path h"
  "command (end_headers h) = command h"
  "self_directory (end_headers h) = self_directory h"
  by (simp_all add: end_headers_def super_end_headers_def Let_def cors_headers_def
      disposition_lines_def url_extension_def)

lemma status_codes_append [simp]: "status_codes (xs @ ys) = status_codes xs @ status_codes ys"
  by (induction xs rule: status_codes.induct) simp_all

lemma heads_append [simp]: "heads (xs @ ys) = heads xs @ heads ys"
  by (induction xs rule: heads.induct) simp_all

lemma listings_append [simp]: "listings (xs @ ys) = listings xs @ listings ys"
  by (induction xs rule: listings.induct) simp_all

lemma status_codes_cors [simp]: "status_codes cors_headers = []"
  by (simp add: cors_headers_def)

lemma status_codes_disposition [simp]: "status_codes (disposition_lines url) = []"
  by (simp add: disposition_lines_def)

lemma send_error_fields:
  "\<exists>ls body. wfile (send_error env code message h) =
       wfile h @ Head (headers_buffer h @ Status_line code (Some message) # ls
                       @ cors_headers @ disposition_lines (self_path h)) # body
     \<and> status_codes ls = [] \<and> heads body = [] \<and> listings body = []"
  "headers_buffer (send_error env code message h) = []"
  "self_path (send_error env code message h) = self_path h"
  "command (send_error env code message h) = command h"
  "self_directory (send_error env code message h) = self_directory h"
  by (simp_all add: send_error_def Let_def split: option.splits)

section \<open>The claims about the listing\<close>








text \<open>
  C1. The \<open>files\<close> of every listing are in descending order of \<open>modified_timestamp\<close>
  (every earlier entry has a timestamp at least that of every later one, so in
  particular adjacent ones), and the entries with one and the same timestamp are in the
  order in which the directory was enumerated.
\<close>

theorem C1_sorted_descending_stable:
  assumes "response_listing (list_directory env d h) = Some l"
  shows "sorted_wrt (\<lambda>a b. modified_timestamp a \<ge> modified_timestamp b) (files l)
       \<and> (\<forall>i. Suc i < length (files l) \<longrightarrow>
             modified_timestamp (files l ! i) \<ge> modified_timestamp (files l ! Suc i))
       \<and> (\<exists>file_list unsorted.
             os_listdir env d = Inr file_list
           \<and> make_entries env d (unquote (self_path h)) file_list = Inr unsorted
           \<and> map name unsorted = file_list
           \<and> (\<forall>t. filter (\<lambda>e. modified_timestamp e = t) (files l)
                    = filter (\<lambda>e. modified_timestamp e = t) unsorted))"
proof -
  from list_directory_listing[OF assms] obtain file_list unsorted where
    ls: "os_listdir env d = Inr file_list" and
    u: "make_entries env d (unquote (self_path h)) file_list = Inr unsorted" and
    f: "files l = sort_reverse modified_timestamp unsorted"
    by blast
  have s: "sorted_wrt (\<lambda>a b. modified_timestamp a \<ge> modified_timestamp b) (files l)"
    unfolding f by (rule sort_reverse_descending)
  have adj: "\<forall>i. Suc i < length (files l) \<longrightarrow>
      modified_timestamp (files l ! i) \<ge> modified_timestamp (files l ! Suc i)"
    using s by (simp add: sorted_wrt_iff_nth_less)
  have st: "\<forall>t. filter (\<lambda>e. modified_timestamp e = t) (files l)
                = filter (\<lambda>e. modified_timestamp e = t) unsorted"
    unfolding f by (simp add: sort_reverse_stable)
  from s adj ls u make_entries_names[OF u] st show ?thesis by blast
qed

theorem C1_sorted_descending_stable_witness:
  "response_listing (list_directory sample_env ''/srv/'' (request ''/srv'' ''GET'' ''/''))
     = Some sample_listing
   \<and> sorted_wrt (\<lambda>a b. modified_timestamp a \<ge> modified_timestamp b) (files sample_listing)
   \<and> map modified_timestamp (files sample_listing) = [300, 200, 100, 100, 50, 0]
   \<and> map name (files sample_listing)
        = [''docs'', ''latest'', ''notes.txt'', ''Report.PDF'', ''old.txt'', ''gone.tmp'']"
  using C1_sorted_descending_stable[OF sample_listing_eq] sample_listing_eq
  by (simp add: sample_listing_def sample_files_def)

text \<open>
  C2, as stated: an entry that is a symbolic link has type \<open>symlink\<close>, whatever its
  target. It fails for \<open>docs\<close>, a symbolic link to a directory: \<open>os.path.isdir\<close> follows
  the link and is tested first, so the entry's type is \<open>directory\<close>.
\<close>

theorem C2_symlink_to_directory_counterexample:
  "response_listing (list_directory sample_env ''/srv/'' (request ''/srv'' ''GET'' ''/''))
     = Some sample_listing
   \<and> name (files sample_listing ! 0) = ''docs''
   \<and> os_path_islink sample_env (os_path_join ''/srv/'' ''docs'')
   \<and> ftype (files sample_listing ! 0) = Directory
   \<and> ftype (files sample_listing ! 0) \<noteq> Symlink"
  using sample_listing_eq
  by (simp add: sample_listing_def sample_files_def sample_env_def os_path_join_def
      endswith_sep_def)

text \<open>
  C2, amended: an entry that is a symbolic link has type \<open>symlink\<close> when
  \<open>os.path.isdir\<close> does not hold of it (the target is a file, or is missing), and type
  \<open>directory\<close> when it does (the target is a directory).
\<close>

theorem C2_symlink_classification:
  assumes "response_listing (list_directory env d h) = Some l"
    and "fe \<in> set (files l)"
    and "os_path_islink env (os_path_join d (name fe))"
  shows "ftype fe = (if os_path_isdir env (os_path_join d (name fe)) then Directory else Symlink)"
proof -
  from list_directory_listing[OF assms(1)] obtain file_list unsorted where
    u: "make_entries env d (unquote (self_path h)) file_list = Inr unsorted" and
    f: "files l = sort_reverse modified_timestamp unsorted"
    by blast
  from assms(2) f have "fe \<in> set unsorted" by (simp add: set_sort_reverse)
  from make_entries_member[OF u this]
  have "make_entry env d (unquote (self_path h)) (name fe) = Inr fe" by simp
  then have "ftype fe = classify env (os_path_join d (name fe))" by (rule make_entry_fields(3))
  with assms(3) show ?thesis by (simp add: classify_def)
qed

theorem C2_symlink_classification_witness:
  "response_listing (list_directory sample_env ''/srv/'' (request ''/srv'' ''GET'' ''/''))
     = Some sample_listing
   \<and> sample_files ! 1 \<in> set (files sample_listing)
   \<and> name (sample_files ! 1) = ''latest''
   \<and> os_path_islink sample_env (os_path_join ''/srv/'' (name (sample_files ! 1)))
   \<and> \<not> os_path_isdir sample_env (os_path_join ''/srv/'' (name (sample_files ! 1)))
   \<and> ftype (sample_files ! 1) = Symlink"
proof -
  have m: "sample_files ! 1 \<in> set (files sample_listing)"
    by (simp add: sample_listing_def sample_files_def)
  have n: "name (sample_files ! 1) = ''latest''" by (simp add: sample_files_def)
  have j: "os_path_join ''/srv/'' ''latest'' = ''/srv/latest''"
    by (simp add: os_path_join_def endswith_sep_def)
  have k: "os_path_islink sample_env (os_path_join ''/srv/'' (name (sample_files ! 1)))"
    unfolding n j by (simp add: sample_env_def)
  have nd: "\<not> os_path_isdir sample_env (os_path_join ''/srv/'' (name (sample_files ! 1)))"
    unfolding n j by (simp add: sample_env_def)
  from C2_symlink_classification[OF sample_listing_eq m k] nd
  have "ftype (sample_files ! 1) = Symlink" by simp
  with sample_listing_eq m n k nd show ?thesis by blast
qed



text \<open>
  C4. When \<open>os.listdir\<close> fails on the target directory (permission denied, not a
  directory, deleted in the meantime: all are \<open>OSError\<close>), \<open>list_directory\<close> answers with
  status 404 through \<open>send_error\<close>, returns no file object, and writes no listing.
\<close>

theorem C4_listing_unavailable:
  assumes "os_listdir env d = Inl OSError" and "headers_buffer h = []"
  shows "\<exists>h' ls body.
           list_directory env d h = Inr (h', None)
         \<and> wfile h' = wfile h @ Head ls # body
         \<and> status_codes ls = [404]
         \<and> heads body = [] \<and> listings body = []
         \<and> response_listing (list_directory env d h) = None"
proof -
  have r: "list_directory env d h =
             Inr (send_error env 404 ''No permission to list directory'' h, None)"
    using assms(1) by (simp add: list_directory_def)
  from send_error_fields(1)[of env 404 "''No permission to list directory''" h]
  obtain ls body where
    w: "wfile (send_error env 404 ''No permission to list directory'' h) =
          wfile h @ Head (headers_buffer h @ Status_line 404 (Some ''No permission to list directory'')
                            # ls @ cors_headers @ disposition_lines (self_path h)) # body"
    and s: "status_codes ls = []" and b: "heads body = []" "listings body = []"
    by blast
  let ?ls = "Status_line 404 (Some ''No permission to list directory'')
               # ls @ cors_headers @ disposition_lines (self_path h)"
  have "wfile (send_error env 404 ''No permission to list directory'' h) = wfile h @ Head ?ls # body"
    using w assms(2) by simp
  moreover have "status_codes ?ls = [404]" using s by simp
  ultimately show ?thesis unfolding r using b by auto
qed

theorem C4_listing_unavailable_witness:
  "os_listdir sample_env ''/srv/missing/'' = Inl OSError
   \<and> headers_buffer (request ''/srv'' ''GET'' ''/missing/'') = []
   \<and> (\<exists>h' ls body.
         list_directory sample_env ''/srv/missing/'' (request ''/srv'' ''GET'' ''/missing/'')
           = Inr (h', None)
       \<and> wfile h' = Head ls # body \<and> status_codes ls = [404] \<and> listings body = [])"
proof -
  have a1: "os_listdir sample_env ''/srv/missing/'' = Inl OSError" by (simp add: sample_env_def)
  have a2: "headers_buffer (request ''/srv'' ''GET'' ''/missing/'') = []" by (simp add: request_def)
  have w: "wfile (request ''/srv'' ''GET'' ''/missing/'') = []" by (simp add: request_def)
  from C4_listing_unavailable[OF a1 a2] w
  have "\<exists>h' ls body.
         list_directory sample_env ''/srv/missing/'' (request ''/srv'' ''GET'' ''/missing/'')
           = Inr (h', None)
       \<and> wfile h' = Head ls # body \<and> status_codes ls = [404] \<and> listings body = []"
    by (simp only: append_Nil) blast
  with a1 a2 show ?thesis by blast
qed

section \<open>Facts about the responses\<close>

lemma header_values_append [simp]:
  "header_values k (xs @ ys) = header_values k xs @ header_values k ys"
  by (induction k xs rule: header_values.induct) simp_all

lemma content_disposition_cors [simp]: "header_values ''Content-Disposition'' cors_headers = []"
  by (simp add: cors_headers_def)

lemma content_type_cors [simp]: "header_values ''Content-type'' cors_headers = []"
  by (simp add: cors_headers_def)

lemma content_type_disposition [simp]:
  "header_values ''Content-type'' (disposition_lines url) = []"
  by (simp add: disposition_lines_def)











section \<open>The extension of a path is that of its last segment\<close>












section \<open>Evaluating the model on concrete requests\<close>




section \<open>When a request raises\<close>









section \<open>The claims about the response headers\<close>












section \<open>Facts about start-up\<close>

lemma wait_loop_no_serve: "Serve_forever proto \<notin> set (fst (wait_loop senv attempts))"
  by (induction attempts) (auto simp: Let_def split: prod.splits)

lemma wait_for_google_drive_no_serve:
  "Serve_forever proto \<notin> set (fst (wait_for_google_drive senv))"
  using wait_loop_no_serve[of proto senv "[1 ..< MAX_RETRIES + 1]"]
  by (auto simp: wait_for_google_drive_def split: prod.splits)

lemma enable_https_fails:
  assumes "tls_files c keyfile = (cf, kf)"
    and "\<not> load_cert_chain_ok senv cf kf \<or> \<not> wrap_socket_ok senv"
  shows "\<exists>mid. enable_https senv c keyfile =
           (Log_info (''Enabling HTTPS using cert: '' @ cf) # Load_cert_chain cf kf # mid
              @ [Log_error ''Failed to load SSL certificate''], Some (Sys_exit 1))
         \<and> (mid = [] \<or> mid = [Wrap_socket])"
  using assms by (cases "load_cert_chain_ok senv cf kf") (simp_all add: enable_https_def Let_def)


lemma run_server_tls:
  assumes "c \<noteq> []"
    and "skip_drive_check \<or> snd (wait_for_google_drive senv)"
    and "dir = None \<or> dir = Some [] \<or> (\<exists>d. dir = Some d \<and> chdir_ok senv d)"
    and "bind_ok senv port"
  shows "run_server senv port dir skip_drive_check (Some c) keyfile =
     ((if skip_drive_check then [] else fst (wait_for_google_drive senv))
        @ (case dir of None \<Rightarrow> [] | Some d \<Rightarrow> (if d \<noteq> [] then [Chdir d] else []))
        @ [Bind port]
        @ fst (enable_https senv c keyfile)
        @ (case snd (enable_https senv c keyfile) of
             None \<Rightarrow> serve ''https'' port | Some out \<Rightarrow> []),
      case snd (enable_https senv c keyfile) of None \<Rightarrow> Serving | Some out \<Rightarrow> out)"
  using assms
  by (cases "enable_https senv c keyfile"; cases "wait_for_google_drive senv";
      cases "snd (enable_https senv c keyfile)")
     (auto simp: run_server_def Let_def split: option.splits)

lemma run_server_no_plaintext:
  assumes "c \<noteq> []" and "snd (enable_https senv c keyfile) \<noteq> None"
  shows "Serve_forever proto \<notin> set (fst (run_server senv port dir skip_drive_check (Some c) keyfile))
       \<and> snd (run_server senv port dir skip_drive_check (Some c) keyfile) \<noteq> Serving"
proof -
  obtain ev4 out where e: "enable_https senv c keyfile = (ev4, Some out)"
    using assms(2) by (cases "enable_https senv c keyfile") auto
  have n4: "Serve_forever proto \<notin> set ev4"
    using e by (auto simp: enable_https_def Let_def split: prod.splits if_splits)
  have o: "out \<noteq> Serving"
    using e by (auto simp: enable_https_def Let_def split: prod.splits if_splits)
  obtain ev1 ready where w: "wait_for_google_drive senv = (ev1, ready)"
    by (cases "wait_for_google_drive senv")
  have n1: "Serve_forever proto \<notin> set ev1"
    using wait_for_google_drive_no_serve[of proto senv] w by simp
  show ?thesis
    using assms(1) e w n1 n4 o
    by (auto simp: run_server_def Let_def split: option.splits if_splits)
qed

section \<open>The claim about start-up\<close>

text \<open>
  C6, as stated: when the configured certificate fails to load, the process exits before
  binding the listener socket. It fails: \<open>run_server\<close> constructs the server, which binds
  and activates the socket, before it loads the certificate; the first effect of the run
  below is \<open>Bind 8000\<close>, the exit comes after it.
\<close>

theorem C6_bound_before_exit_counterexample:
  "\<not> load_cert_chain_ok sample_startup ''cert.pem'' ''cert.pem''
   \<and> run_server sample_startup 8000 None True (Some ''cert.pem'') None =
       ([Bind 8000,
         Log_info ''Enabling HTTPS using cert: cert.pem'',
         Load_cert_chain ''cert.pem'' ''cert.pem'',
         Log_error ''Failed to load SSL certificate''],
        Sys_exit 1)"
  by (simp add: run_server_def enable_https_def tls_files_def strip_quotes_def strip_char_def
      sample_startup_def Let_def)

text \<open>
  C6, amended. When a certificate is configured and loading it (or wrapping the socket)
  fails, the server never serves, neither over TLS nor in plaintext; and when start-up gets
  as far as the TLS set-up (the readiness check passed, the directory change and the bind
  succeeded), the listener socket has been bound, the failure is logged as an error, it is
  the last effect, and the process exits with status 1.
\<close>

theorem C6_tls_failure_is_fatal:
  assumes "c \<noteq> []"
    and "tls_files c keyfile = (cf, kf)"
    and "\<not> load_cert_chain_ok senv cf kf \<or> \<not> wrap_socket_ok senv"
  shows "(\<forall>proto. Serve_forever proto
            \<notin> set (fst (run_server senv port dir skip_drive_check (Some c) keyfile)))
       \<and> snd (run_server senv port dir skip_drive_check (Some c) keyfile) \<noteq> Serving
       \<and> ((skip_drive_check \<or> snd (wait_for_google_drive senv))
            \<and> (dir = None \<or> dir = Some [] \<or> (\<exists>d. dir = Some d \<and> chdir_ok senv d))
            \<and> bind_ok senv port \<longrightarrow>
          snd (run_server senv port dir skip_drive_check (Some c) keyfile) = Sys_exit 1
          \<and> (\<exists>pre mid. fst (run_server senv port dir skip_drive_check (Some c) keyfile) =
                pre @ [Bind port, Log_info (''Enabling HTTPS using cert: '' @ cf),
                       Load_cert_chain cf kf]
                    @ mid @ [Log_error ''Failed to load SSL certificate'']))"
proof -
  from enable_https_fails[OF assms(2,3)] obtain mid where
    e: "enable_https senv c keyfile =
           (Log_info (''Enabling HTTPS using cert: '' @ cf) # Load_cert_chain cf kf # mid
              @ [Log_error ''Failed to load SSL certificate''], Some (Sys_exit 1))"
    by blast
  then have ne: "snd (enable_https senv c keyfile) \<noteq> None" by simp
  note np = run_server_no_plaintext[OF assms(1) ne]
  have reach: "snd (run_server senv port dir skip_drive_check (Some c) keyfile) = Sys_exit 1
          \<and> (\<exists>pre mid. fst (run_server senv port dir skip_drive_check (Some c) keyfile) =
                pre @ [Bind port, Log_info (''Enabling HTTPS using cert: '' @ cf),
                       Load_cert_chain cf kf]
                    @ mid @ [Log_error ''Failed to load SSL certificate''])"
    if g: "skip_drive_check \<or> snd (wait_for_google_drive senv)"
      and d: "dir = None \<or> dir = Some [] \<or> (\<exists>d. dir = Some d \<and> chdir_ok senv d)"
      and b: "bind_ok senv port"
  proof -
    let ?pre = "(if skip_drive_check then [] else fst (wait_for_google_drive senv))
        @ (case dir of None \<Rightarrow> [] | Some d \<Rightarrow> (if d \<noteq> [] then [Chdir d] else []))"
    have r: "run_server senv port dir skip_drive_check (Some c) keyfile =
        (?pre @ [Bind port, Log_info (''Enabling HTTPS using cert: '' @ cf),
                       Load_cert_chain cf kf]
                    @ mid @ [Log_error ''Failed to load SSL certificate''], Sys_exit 1)"
      unfolding run_server_tls[OF assms(1) g d b] e by simp
    show ?thesis unfolding r by (simp only: fst_conv snd_conv) blast
  qed
  from np reach show ?thesis by blast
qed

theorem C6_tls_failure_is_fatal_witness:
  "tls_files ''cert.pem'' None = (''cert.pem'', ''cert.pem'')
   \<and> \<not> load_cert_chain_ok sample_startup ''cert.pem'' ''cert.pem''
   \<and> bind_ok sample_startup 8000
   \<and> snd (run_server sample_startup 8000 None True (Some ''cert.pem'') None) = Sys_exit 1
   \<and> snd (run_server sample_startup 8000 None True (Some ''cert.pem'') None) \<noteq> Serving
   \<and> Serve_forever ''http''
        \<notin> set (fst (run_server sample_startup 8000 None True (Some ''cert.pem'') None))"
proof -
  have c: "''cert.pem'' \<noteq> []" by simp
  have t: "tls_files ''cert.pem'' None = (''cert.pem'', ''cert.pem'')"
    by (simp add: tls_files_def strip_quotes_def strip_char_def Let_def)
  have l: "\<not> load_cert_chain_ok sample_startup ''cert.pem'' ''cert.pem''"
    by (simp add: sample_startup_def)
  then have l': "\<not> load_cert_chain_ok sample_startup ''cert.pem'' ''cert.pem''
                  \<or> \<not> wrap_socket_ok sample_startup" ..
  have b: "bind_ok sample_startup 8000" by (simp add: sample_startup_def)
  note th = C6_tls_failure_is_fatal[OF c t l', of 8000 None True]
  from th b have e: "snd (run_server sample_startup 8000 None True (Some ''cert.pem'') None) = Sys_exit 1"
    by simp
  from th have s: "snd (run_server sample_startup 8000 None True (Some ''cert.pem'') None) \<noteq> Serving"
    and n: "Serve_forever ''http''
        \<notin> set (fst (run_server sample_startup 8000 None True (Some ''cert.pem'') None))"
    by simp_all
  show ?thesis by (intro conjI t l b e s n)
qed

section \<open>Facts about path translation\<close>








section \<open>The claim about path traversal\<close>




end
